theory Spec2Isabelle
  imports Main
begin

section \<open>The Dbg logger of aslib/dbg.py\<close>

text \<open>
  A shallow embedding of class \<open>Dbg\<close> (src/pack/multitxn2/aslib/dbg.py): the level table,
  the message recorder (\<open>msg\<close>, \<open>msgs\<close>, \<open>errs\<close>, \<open>clr\<close>), the formatter
  (\<open>__format_line\<close>), the live filter (\<open>__filter\<close>), the sink writer (\<open>__print\<close>), the
  eight level-gated emit methods, the trace helpers and the constructor.
  A private method \<open>__name\<close> of the source is the constant \<open>name'\<close> here.
\<close>

subsection \<open>Strings\<close>

definition nl :: string where
  "nl = [CHR 0x0A]"

definition quote :: string where
  "quote = [CHR 0x27]"

text \<open>Python's \<open>str\<close> of an integer: decimal digits, a leading minus sign when negative.\<close>

function str_nat :: "nat \<Rightarrow> string" where
  "str_nat n = (if n < 10 then [''0123456789'' ! n]
                else str_nat (n div 10) @ [''0123456789'' ! (n mod 10)])"
  by pat_completeness auto
termination
  by (relation "measure id") auto

declare str_nat.simps [simp del]

definition str_int :: "int \<Rightarrow> string" where
  "str_int i = (if i < 0 then CHR ''-'' # str_nat (nat (- i)) else str_nat (nat i))"

text \<open>Python's \<open>s * k\<close> on a string: \<open>k\<close> copies, none when \<open>k\<close> is zero or negative.\<close>

definition str_mul :: "string \<Rightarrow> int \<Rightarrow> string" where
  "str_mul s k = concat (replicate (nat k) s)"

text \<open>Python's \<open>s.split(',')\<close>: the pieces between commas, at least one piece.\<close>

fun split_comma :: "string \<Rightarrow> string list" where
  "split_comma [] = [[]]"
| "split_comma (c # cs) =
     (if c = CHR '','' then [] # split_comma cs
      else (case split_comma cs of
              [] \<Rightarrow> [[c]]
            | p # ps \<Rightarrow> (c # p) # ps))"

subsection \<open>Levels\<close>

datatype error = ValueError string | OSError string

definition NONE :: int where "NONE = - 1"
definition ANY :: int where "ANY = - 1"
definition OUT :: int where "OUT = 0"
definition ERR :: int where "ERR = 1"
definition WRN :: int where "WRN = 2"
definition INF_lvl :: int where "INF_lvl = 3"
definition DBG :: int where "DBG = 4"
definition DB2 :: int where "DB2 = 5"
definition IDB :: int where "IDB = 6"
definition LOG :: int where "LOG = 7"

text \<open>The dictionary \<open>levels\<close>, in insertion order (the reverse lookup depends on it).\<close>

definition levels :: "(string \<times> int) list" where
  "levels = [(''none'', - 1), (''any'', - 1), (''out'', 0), (''err'', 1), (''wrn'', 2),
             (''inf'', 3), (''dbg'', 4), (''db2'', 5), (''idb'', 6), (''log'', 7)]"

text \<open>\<open>list.index\<close>: the position of the first equal element, \<open>None\<close> where Python raises.\<close>

fun index_of :: "int list \<Rightarrow> int \<Rightarrow> nat option" where
  "index_of [] v = None"
| "index_of (x # xs) v =
     (if x = v then Some 0
      else (case index_of xs v of None \<Rightarrow> None | Some i \<Rightarrow> Some (Suc i)))"

text \<open>\<open>list(self.levels.keys())[list(self.levels.values()).index(dlvl)]\<close>\<close>

definition level_name :: "int \<Rightarrow> error + string" where
  "level_name dlvl =
     (case index_of (map snd levels) dlvl of
        None \<Rightarrow> Inl (ValueError (str_int dlvl @ '' is not in list''))
      | Some i \<Rightarrow> Inr (map fst levels ! i))"

subsection \<open>Data\<close>

text \<open>
  The attributes of one instance. An attribute that \<open>__init__\<close> does not assign is read
  from the class body; \<open>Dbg_defaults\<close> holds those class-level values.
  \<open>log_fp\<close> is the open append handle, identified by the path it was opened on.
\<close>

record Dbg =
  dlvl :: int
  trc :: bool
  log_fp :: "string option"
  log_file :: "string option"
  log_only :: bool
  force_out :: bool
  date_n_time :: bool
  file_n_line :: bool
  hdr_date_format :: string
  file_func_line :: bool
  fnm :: "string option"
  func :: "string option"
  ln_beg :: "int option"
  ln_end :: "int option"

definition Dbg_defaults :: Dbg where
  "Dbg_defaults =
     \<lparr>dlvl = ERR, trc = False, log_fp = None, log_file = None, log_only = False,
      force_out = True, date_n_time = True, file_n_line = True,
      hdr_date_format = ''%Y-%m-%d %H:%M:%S.%f'', file_func_line = False,
      fnm = None, func = None, ln_beg = None, ln_end = None\<rparr>"

text \<open>
  The frame of the code that called a public method: the base name of its resolved
  \<open>__file__\<close> (\<open><nofile>\<close> when it has none), its \<open>co_name\<close> and its \<open>f_lineno\<close>.
\<close>

record callsite =
  s_fnm :: string
  s_func :: string
  s_ln :: int

text \<open>
  What a call reads from the interpreter: the calling frame, the number of frames on the
  stack at the call (the calling frame included) and the clock, as the function from a
  \<open>strftime\<close> format to the formatted current time.
\<close>

record callenv =
  caller :: callsite
  nframes :: nat
  now :: "string \<Rightarrow> string"

text \<open>An entry of \<open>dmsgs\<close>: the dictionary \<open>mobj\<close> built by \<open>msg\<close>.\<close>

record mobj =
  m_lvl :: string
  m_fnm :: string
  m_func :: string
  m_ln :: int
  m_txt :: string
  m_dlvl :: int
  m_dpth :: int

text \<open>
  What the methods change. \<open>dmsgs\<close> is the list object bound in the class body
  (\<open>dmsgs = []\<close>, line 82): no method assigns \<open>self.dmsgs\<close>, \<open>msg\<close> appends to it and
  \<open>msgs\<close> and \<open>clr\<close> clear it in place, so every instance reads and writes this one list.
  \<open>written\<close> is the sequence of writes to \<open>sys.stdout\<close> and to log handles, in order.
\<close>

datatype event = Stdout string | LogWrite string string

record world =
  dmsgs :: "mobj list"
  written :: "event list"

subsection \<open>Stack depth\<close>

text \<open>
  \<open>__frame_depth\<close>: \<open>n\<close> is the number of frames on the stack while it runs, its own
  included, so \<open>sys._getframe(dpth)\<close> succeeds exactly when \<open>dpth < n\<close>.
\<close>

function frame_depth_loop :: "nat \<Rightarrow> nat \<Rightarrow> nat" where
  "frame_depth_loop n dpth =
     (if dpth < n then frame_depth_loop n (dpth + 1) else dpth - 1)"
  by pat_completeness auto
termination
  by (relation "measure (\<lambda>(n, dpth). n - dpth)") auto

declare frame_depth_loop.simps [simp del]

definition frame_depth' :: "nat option \<Rightarrow> nat \<Rightarrow> int" where
  "frame_depth' less' n =
     int (frame_depth_loop n (case less' of None \<Rightarrow> 2 | Some l \<Rightarrow> 2 + l))"

subsection \<open>Formatter\<close>

text \<open>
  \<open>__format_line\<close>; \<open>site\<close> is the frame three levels above it, which is the caller of
  the public method on every path modelled here.
\<close>

definition format_line' ::
  "Dbg \<Rightarrow> (string \<Rightarrow> string) \<Rightarrow> callsite \<Rightarrow> int \<Rightarrow> string \<Rightarrow> error + string" where
  "format_line' self clock site lvl txt =
     (case (if date_n_time self
            then (case level_name lvl of
                    Inl e \<Rightarrow> Inl e
                  | Inr nm \<Rightarrow> Inr (clock (hdr_date_format self) @ '' '' @ nm))
            else Inr '''') of
        Inl e \<Rightarrow> Inl e
      | Inr hdr1 \<Rightarrow>
          (let hdr2 =
                 (if file_n_line self
                  then hdr1 @ (if date_n_time self then '' '' else '''')
                       @ s_fnm site @ '':''
                       @ (if s_func site = ''<module>'' then ''__main__:''
                          else s_func site @ ''():'')
                       @ str_int (s_ln site)
                  else hdr1);
               hdr3 =
                 (if file_n_line self \<or> date_n_time self then ''['' @ hdr2 @ ''] ''
                  else hdr2)
           in Inr (hdr3 @ txt @ nl)))"

subsection \<open>Live filter\<close>

text \<open>The loop over \<open>self.func.split(',')\<close> with the \<open>return True\<close> after it.\<close>

fun filter_func_loop :: "string \<Rightarrow> string list \<Rightarrow> bool" where
  "filter_func_loop f [] = True"
| "filter_func_loop f (fnc # rest) = (if f = fnc then False else filter_func_loop f rest)"

text \<open>\<open>__filter\<close> on the frame it walks to; \<open>True\<close> suppresses the line.\<close>

definition filter' :: "Dbg \<Rightarrow> callsite \<Rightarrow> bool" where
  "filter' self site =
     (if (case fnm self of None \<Rightarrow> False | Some f \<Rightarrow> s_fnm site \<noteq> f) then True
      else (case func self of
              Some fl \<Rightarrow> filter_func_loop (s_func site) (split_comma fl)
            | None \<Rightarrow>
                (if (case ln_beg self of None \<Rightarrow> False | Some b \<Rightarrow> s_ln site < b) then True
                 else if (case ln_end self of None \<Rightarrow> False | Some e \<Rightarrow> s_ln site > e)
                 then True
                 else False)))"

subsection \<open>Sink writer\<close>

text \<open>
  \<open>__print\<close>; \<open>n\<close> is the number of frames on the stack while it runs, its own included,
  and \<open>caller env\<close> the frame two levels above it.
\<close>

definition print' ::
  "Dbg \<Rightarrow> callenv \<Rightarrow> nat \<Rightarrow> int \<Rightarrow> string \<Rightarrow> int option \<Rightarrow> world \<Rightarrow> error + world" where
  "print' self env n lvl txt dpth w =
     (if filter' self (caller env) then Inr w
      else
        (case (case log_fp self of
                 None \<Rightarrow> Inr w
               | Some fp \<Rightarrow>
                   (case format_line' self (now env) (caller env) lvl txt of
                      Inl e \<Rightarrow> Inl e
                    | Inr line \<Rightarrow> Inr (w\<lparr>written := written w @ [LogWrite fp line]\<rparr>))) of
           Inl e \<Rightarrow> Inl e
         | Inr w1 \<Rightarrow>
             (if \<not> log_only self
              then (let ws =
                          (if trc self \<and> \<not> log_only self
                           then str_mul ''  ''
                                  (case dpth of
                                     None \<Rightarrow> frame_depth' None (n + 1) - 3
                                   | Some d \<Rightarrow> d - 2)
                           else '''')
                    in Inr (w1\<lparr>written := written w1 @ [Stdout (ws @ txt @ nl)]\<rparr>))
              else Inr w1)))"

subsection \<open>Level-gated emit methods\<close>

text \<open>
  Each runs \<open>__print\<close> two frames above the caller's stack. \<open>inf\<close> is \<open>inf'\<close> here and
  the level \<open>INF\<close> is \<open>INF_lvl\<close>, the plain names being taken.
\<close>

definition any :: "Dbg \<Rightarrow> callenv \<Rightarrow> string \<Rightarrow> world \<Rightarrow> error + world" where
  "any self env txt w =
     (if dlvl self \<ge> ANY then print' self env (nframes env + 2) ANY txt None w else Inr w)"

definition out :: "Dbg \<Rightarrow> callenv \<Rightarrow> string \<Rightarrow> world \<Rightarrow> error + world" where
  "out self env txt w =
     (if dlvl self \<ge> OUT then print' self env (nframes env + 2) OUT txt None w else Inr w)"

definition err :: "Dbg \<Rightarrow> callenv \<Rightarrow> string \<Rightarrow> world \<Rightarrow> error + world" where
  "err self env txt w =
     (if dlvl self \<ge> ERR then print' self env (nframes env + 2) ERR txt None w else Inr w)"

definition wrn :: "Dbg \<Rightarrow> callenv \<Rightarrow> string \<Rightarrow> world \<Rightarrow> error + world" where
  "wrn self env txt w =
     (if dlvl self \<ge> WRN then print' self env (nframes env + 2) WRN txt None w else Inr w)"

definition inf' :: "Dbg \<Rightarrow> callenv \<Rightarrow> string \<Rightarrow> world \<Rightarrow> error + world" where
  "inf' self env txt w =
     (if dlvl self \<ge> INF_lvl then print' self env (nframes env + 2) INF_lvl txt None w else Inr w)"

definition dbg :: "Dbg \<Rightarrow> callenv \<Rightarrow> string \<Rightarrow> world \<Rightarrow> error + world" where
  "dbg self env txt w =
     (if dlvl self \<ge> DBG then print' self env (nframes env + 2) DBG txt None w else Inr w)"

definition db2 :: "Dbg \<Rightarrow> callenv \<Rightarrow> string \<Rightarrow> world \<Rightarrow> error + world" where
  "db2 self env txt w =
     (if dlvl self \<ge> DB2 then print' self env (nframes env + 2) DB2 txt None w else Inr w)"

definition log :: "Dbg \<Rightarrow> callenv \<Rightarrow> string \<Rightarrow> world \<Rightarrow> error + world" where
  "log self env txt w =
     (if dlvl self \<ge> LOG then print' self env (nframes env + 2) LOG txt None w else Inr w)"

text \<open>The eight methods under one name, for statements about all of them.\<close>

datatype emit_op = OpAny | OpOut | OpErr | OpWrn | OpInf | OpDbg | OpDb2 | OpLog

fun level_of :: "emit_op \<Rightarrow> int" where
  "level_of OpAny = ANY"
| "level_of OpOut = OUT"
| "level_of OpErr = ERR"
| "level_of OpWrn = WRN"
| "level_of OpInf = INF_lvl"
| "level_of OpDbg = DBG"
| "level_of OpDb2 = DB2"
| "level_of OpLog = LOG"

fun emit :: "emit_op \<Rightarrow> Dbg \<Rightarrow> callenv \<Rightarrow> string \<Rightarrow> world \<Rightarrow> error + world" where
  "emit OpAny = any"
| "emit OpOut = out"
| "emit OpErr = err"
| "emit OpWrn = wrn"
| "emit OpInf = inf'"
| "emit OpDbg = dbg"
| "emit OpDb2 = db2"
| "emit OpLog = log"

subsection \<open>Recorder\<close>

text \<open>
  \<open>msg\<close>: the level check, the reverse lookup of the level name, the caller's frame and
  the depth from \<open>__frame_depth(less=1)\<close>, which runs one frame above \<open>msg\<close>.
\<close>

definition msg :: "Dbg \<Rightarrow> callenv \<Rightarrow> int \<Rightarrow> string \<Rightarrow> world \<Rightarrow> error + world" where
  "msg self env lvl txt w =
     (if lvl < ANY \<or> lvl > LOG
      then Inl (ValueError (''Debug level of '' @ quote @ str_int lvl @ quote
                            @ '' not recognized.''))
      else (case level_name lvl of
              Inl e \<Rightarrow> Inl e
            | Inr nm \<Rightarrow>
                Inr (w\<lparr>dmsgs := dmsgs w @
                       [\<lparr>m_lvl = nm, m_fnm = s_fnm (caller env),
                         m_func = s_func (caller env), m_ln = s_ln (caller env),
                         m_txt = txt, m_dlvl = lvl,
                         m_dpth = frame_depth' (Some 1) (nframes env + 2)\<rparr>]\<rparr>)))"

text \<open>The five \<open>continue\<close> tests of the loop in \<open>msgs\<close>, on its own arguments.\<close>

definition msgs_skip ::
  "int option \<Rightarrow> string option \<Rightarrow> string option \<Rightarrow> int option \<Rightarrow> int option \<Rightarrow> mobj \<Rightarrow> bool"
  where
  "msgs_skip lvl fnm_arg func_arg beg_arg end_arg m =
     (if (case lvl of None \<Rightarrow> False | Some l \<Rightarrow> m_dlvl m > l) then True
      else if (case fnm_arg of None \<Rightarrow> False | Some f \<Rightarrow> m_fnm m \<noteq> f) then True
      else if (case func_arg of None \<Rightarrow> False | Some f \<Rightarrow> m_func m \<noteq> f) then True
      else if (case beg_arg of None \<Rightarrow> False | Some b \<Rightarrow> m_ln m < b) then True
      else if (case end_arg of None \<Rightarrow> False | Some e \<Rightarrow> m_ln m \<ge> e) then True
      else False)"

text \<open>The text a surviving message is printed with: prefixed when \<open>ffl\<close> is set.\<close>

definition msgs_txt :: "bool \<Rightarrow> mobj \<Rightarrow> string" where
  "msgs_txt ffl m =
     (if ffl
      then m_fnm m @ '':'' @ m_func m @ ''():'' @ str_int (m_ln m)
           @ ''('' @ str_int (m_dpth m) @ '') '' @ m_lvl m @ '' '' @ m_txt m
      else m_txt m)"

text \<open>
  The loop of \<open>msgs\<close> over the buffered messages. \<open>__print\<close> runs two frames above the
  caller of \<open>msgs\<close>, so its filter and its header see that caller's frame.
\<close>

fun msgs_loop ::
  "Dbg \<Rightarrow> callenv \<Rightarrow> int option \<Rightarrow> string option \<Rightarrow> string option \<Rightarrow> int option
   \<Rightarrow> int option \<Rightarrow> bool \<Rightarrow> mobj list \<Rightarrow> world \<Rightarrow> error + world" where
  "msgs_loop self env lvl fnm_arg func_arg beg_arg end_arg ffl [] w = Inr w"
| "msgs_loop self env lvl fnm_arg func_arg beg_arg end_arg ffl (m # ms) w =
     (if msgs_skip lvl fnm_arg func_arg beg_arg end_arg m
      then msgs_loop self env lvl fnm_arg func_arg beg_arg end_arg ffl ms w
      else (case print' self env (nframes env + 2)
                   (case lvl of None \<Rightarrow> m_dlvl m | Some l \<Rightarrow> l)
                   (msgs_txt ffl m) (Some (m_dpth m)) w of
              Inl e \<Rightarrow> Inl e
            | Inr w1 \<Rightarrow>
                msgs_loop self env lvl fnm_arg func_arg beg_arg end_arg ffl ms w1))"

definition msgs ::
  "Dbg \<Rightarrow> callenv \<Rightarrow> string option \<Rightarrow> int option \<Rightarrow> string option \<Rightarrow> string option
   \<Rightarrow> int option \<Rightarrow> int option \<Rightarrow> bool option \<Rightarrow> bool \<Rightarrow> world \<Rightarrow> error + world" where
  "msgs self env banner lvl fnm_arg func_arg beg_arg end_arg ffl clr_arg w =
     (case (case banner of
              None \<Rightarrow> Inr w
            | Some b \<Rightarrow>
                (if b \<noteq> [] then print' self env (nframes env + 2) OUT b None w
                 else Inr w)) of
        Inl e \<Rightarrow> Inl e
      | Inr w1 \<Rightarrow>
          (case msgs_loop self env lvl fnm_arg func_arg beg_arg end_arg
                  (case ffl of None \<Rightarrow> file_func_line self | Some b \<Rightarrow> b)
                  (dmsgs w1) w1 of
             Inl e \<Rightarrow> Inl e
           | Inr w2 \<Rightarrow> Inr (if clr_arg then w2\<lparr>dmsgs := []\<rparr> else w2)))"

text \<open>\<open>msgs()\<close> with every argument at its default.\<close>

definition msgs_default :: "Dbg \<Rightarrow> callenv \<Rightarrow> world \<Rightarrow> error + world" where
  "msgs_default self env w = msgs self env None None None None None None None True w"

definition errs :: "Dbg \<Rightarrow> world \<Rightarrow> bool" where
  "errs self w = (if length (dmsgs w) > 0 then True else False)"

definition clr :: "Dbg \<Rightarrow> world \<Rightarrow> world" where
  "clr self w = w\<lparr>dmsgs := []\<rparr>"

subsection \<open>Trace helpers\<close>

text \<open>
  \<open>__enter\<close> and \<open>__leave\<close> run two frames above the caller of \<open>enter\<close> and \<open>leave\<close>,
  and \<open>__frame_depth\<close> one frame above them.
\<close>

definition enter' :: "Dbg \<Rightarrow> callenv \<Rightarrow> string \<Rightarrow> world \<Rightarrow> error + world" where
  "enter' self env m w =
     (if \<not> trc self then Inr w
      else if filter' self (caller env) then Inr w
      else
        (let dpth = frame_depth' None (nframes env + 3);
             ws = str_mul ''  '' (dpth - 4);
             ln = s_func (caller env) @ ''('' @ m @ '') {'';
             w1 = (if \<not> log_only self
                   then w\<lparr>written := written w @ [Stdout (ws @ ln @ nl)]\<rparr>
                   else w)
         in (case log_fp self of
               None \<Rightarrow> Inr w1
             | Some fp \<Rightarrow>
                 (case format_line' self (now env) (caller env) DBG ln of
                    Inl e \<Rightarrow> Inl e
                  | Inr line \<Rightarrow> Inr (w1\<lparr>written := written w1 @ [LogWrite fp line]\<rparr>)))))"

definition enter :: "Dbg \<Rightarrow> callenv \<Rightarrow> string \<Rightarrow> world \<Rightarrow> error + world" where
  "enter self env m w = enter' self env m w"

definition leave' :: "Dbg \<Rightarrow> callenv \<Rightarrow> string \<Rightarrow> world \<Rightarrow> error + world" where
  "leave' self env m w =
     (if \<not> trc self then Inr w
      else if filter' self (caller env) then Inr w
      else
        (let dpth = frame_depth' None (nframes env + 3);
             ws = str_mul ''  '' (dpth - 4);
             ln = ''} # '' @ s_func (caller env) @ '':'' @ str_int (s_ln (caller env))
                  @ '' '' @ m;
             w1 = (if \<not> log_only self
                   then w\<lparr>written := written w @ [Stdout (ws @ ln @ nl)]\<rparr>
                   else w)
         in (case log_fp self of
               None \<Rightarrow> Inr w1
             | Some fp \<Rightarrow>
                 (case format_line' self (now env) (caller env) DBG ln of
                    Inl e \<Rightarrow> Inl e
                  | Inr line \<Rightarrow> Inr (w1\<lparr>written := written w1 @ [LogWrite fp line]\<rparr>)))))"

definition leave :: "Dbg \<Rightarrow> callenv \<Rightarrow> string \<Rightarrow> world \<Rightarrow> error + world" where
  "leave self env m w = leave' self env m w"

subsection \<open>Constructor\<close>

text \<open>
  The arguments of \<open>__init__\<close>; \<open>None\<close> is an argument left at its default \<open>None\<close>.
  \<open>init_defaults\<close> is the call \<open>Dbg()\<close>.
\<close>

record init_args =
  a_lvl :: string
  a_trc :: bool
  a_log_file :: "string option"
  a_log_only :: "bool option"
  a_force_out :: "bool option"
  a_date_n_time :: "bool option"
  a_file_n_line :: "bool option"
  a_hdr_date_format :: "string option"
  a_file_func_line :: "bool option"
  a_file_name :: "string option"
  a_func_name :: "string option"
  a_line_begin :: "int option"
  a_line_end :: "int option"

definition init_defaults :: init_args where
  "init_defaults =
     \<lparr>a_lvl = ''err'', a_trc = False, a_log_file = None, a_log_only = None,
      a_force_out = None, a_date_n_time = None, a_file_n_line = None,
      a_hdr_date_format = None, a_file_func_line = None, a_file_name = None,
      a_func_name = None, a_line_begin = None, a_line_end = None\<rparr>"

text \<open>An optional argument over the class-level value.\<close>

definition or_default :: "'a option \<Rightarrow> 'a \<Rightarrow> 'a" where
  "or_default v d = (case v of None \<Rightarrow> d | Some x \<Rightarrow> x)"

text \<open>
  The built-in \<open>open(path, 'a')\<close>: a path with an embedded NUL character is refused with
  a \<open>ValueError\<close>; for any other path the platform decides, \<open>can_open path\<close> telling
  whether it opens, and a failure is an \<open>OSError\<close>. The handle is identified by the path.
\<close>

definition open_append :: "(string \<Rightarrow> bool) \<Rightarrow> string \<Rightarrow> error + string" where
  "open_append can_open path =
     (if CHR 0x00 \<in> set path then Inl (ValueError ''embedded null byte'')
      else if can_open path then Inr path
      else Inl (OSError path))"

text \<open>
  \<open>__init__\<close>. An error of \<open>open\<close> leaves the constructor as it is raised. The level
  lookup comes first, the \<open>log_only\<close> check after the log file is opened. \<open>log_file\<close> and
  the four filter attributes are \<open>None\<close> in the class body, so each is its argument either
  way.
\<close>

definition init :: "(string \<Rightarrow> bool) \<Rightarrow> init_args \<Rightarrow> error + Dbg" where
  "init can_open a =
     (case map_of levels (a_lvl a) of
        None \<Rightarrow>
          Inl (ValueError (''Debug level of '' @ quote @ a_lvl a @ quote
                           @ '' not recognized.''))
      | Some l \<Rightarrow>
          (case (case a_log_file a of
                   None \<Rightarrow> Inr None
                 | Some f \<Rightarrow>
                     (case open_append can_open f of
                        Inl e \<Rightarrow> Inl e
                      | Inr h \<Rightarrow> Inr (Some h))) of
             Inl e \<Rightarrow> Inl e
           | Inr fp \<Rightarrow>
               (if a_log_only a = Some True \<and> a_log_file a = None
                then Inl (ValueError (''Can'' @ quote
                                      @ ''t specify log_only and no log_file!''))
                else Inr \<lparr>dlvl = l, trc = a_trc a, log_fp = fp,
                          log_file = a_log_file a,
                          log_only = or_default (a_log_only a) (log_only Dbg_defaults),
                          force_out = or_default (a_force_out a) (force_out Dbg_defaults),
                          date_n_time =
                            or_default (a_date_n_time a) (date_n_time Dbg_defaults),
                          file_n_line =
                            or_default (a_file_n_line a) (file_n_line Dbg_defaults),
                          hdr_date_format =
                            or_default (a_hdr_date_format a) (hdr_date_format Dbg_defaults),
                          file_func_line =
                            or_default (a_file_func_line a) (file_func_line Dbg_defaults),
                          fnm = a_file_name a, func = a_func_name a,
                          ln_beg = a_line_begin a, ln_end = a_line_end a\<rparr>)))"

subsection \<open>Sample inputs\<close>

text \<open>A clock reading, a platform on which every path opens, and a call from line 42 of
  function \<open>f\<close> in file \<open>x\<close>, itself called from the top-level script.\<close>

definition sample_clock :: "string \<Rightarrow> string" where
  "sample_clock fmt = ''2024-01-01 00:00:00''"

definition any_path :: "string \<Rightarrow> bool" where
  "any_path p = True"

text \<open>A platform on which no path opens.\<close>

definition no_path :: "string \<Rightarrow> bool" where
  "no_path p = False"

definition site_x_f_42 :: callsite where
  "site_x_f_42 = \<lparr>s_fnm = ''x'', s_func = ''f'', s_ln = 42\<rparr>"

definition sample_env :: callenv where
  "sample_env = \<lparr>caller = site_x_f_42, nframes = 2, now = sample_clock\<rparr>"

definition w_empty :: world where
  "w_empty = \<lparr>dmsgs = [], written = []\<rparr>"



definition mobj_m :: "int \<Rightarrow> string \<Rightarrow> mobj" where
  "mobj_m l nm = \<lparr>m_lvl = nm, m_fnm = ''x'', m_func = ''f'', m_ln = 42, m_txt = ''m'',
                   m_dlvl = l, m_dpth = 3\<rparr>"

section \<open>Properties\<close>

subsection \<open>Auxiliary facts\<close>

lemmas level_defs = NONE_def ANY_def OUT_def ERR_def WRN_def INF_lvl_def DBG_def DB2_def
  IDB_def LOG_def

lemma str_int_42: "str_int 42 = ''42''"
  by (simp add: str_int_def str_nat.simps [of 42] str_nat.simps [of 4])

text \<open>The loop of \<open>__frame_depth\<close> stops at the first depth with no frame.\<close>

lemma frame_depth_loop_eq: "frame_depth_loop n d = max n d - 1"
proof (induction n d rule: frame_depth_loop.induct)
  case (1 n dpth)
  show ?case
  proof (cases "dpth < n")
    case True
    with "1" have "frame_depth_loop n (dpth + 1) = max n (dpth + 1) - 1" by simp
    with True show ?thesis by (auto simp: frame_depth_loop.simps [of n dpth] max_def)
  next
    case False
    then show ?thesis by (simp add: frame_depth_loop.simps [of n dpth] max_def)
  qed
qed

lemma frame_depth_eq:
  "frame_depth' k n = int (max n (case k of None \<Rightarrow> 2 | Some l \<Rightarrow> 2 + l) - 1)"
  by (simp add: frame_depth'_def frame_depth_loop_eq)

text \<open>The depth recorded by \<open>msg\<close> indents as the depth a direct emit computes.\<close>

lemma recorded_indent:
  "str_mul ''  '' (frame_depth' (Some 1) (n + 2) - 2)
   = str_mul ''  '' (frame_depth' None (n + 2 + 1) - 3)"
  by (simp add: frame_depth_eq max_def str_mul_def)

lemma level_name_valid:
  assumes "ANY \<le> l" "l \<le> LOG"
  shows "\<exists>nm. level_name l = Inr nm"
proof -
  from assms
  have "l = - 1 \<or> l = 0 \<or> l = 1 \<or> l = 2 \<or> l = 3 \<or> l = 4 \<or> l = 5 \<or> l = 6 \<or> l = 7"
    unfolding ANY_def LOG_def by arith
  then show ?thesis
    by (auto simp: level_name_def levels_def)
qed

lemma level_name_of_op: "\<exists>nm. level_name (level_of op) = Inr nm"
  by (cases op) (simp_all add: level_name_def levels_def level_defs)

lemma level_of_valid: "ANY \<le> level_of op \<and> level_of op \<le> LOG"
  by (cases op) (simp_all add: level_defs)

text \<open>Neither the filter nor the formatter reads the threshold.\<close>

lemma filter_dlvl: "filter' (self\<lparr>dlvl := t\<rparr>) site = filter' self site"
  by (simp add: filter'_def)

lemma format_line_dlvl:
  "format_line' (self\<lparr>dlvl := t\<rparr>) clock site lvl s = format_line' self clock site lvl s"
  by (simp add: format_line'_def Let_def split: sum.splits)

text \<open>An emit method whose level the threshold admits is a call of \<open>__print\<close>.\<close>

lemma emit_eq_print:
  "level_of op \<le> dlvl self
   \<Longrightarrow> emit op self env t w = print' self env (nframes env + 2) (level_of op) t None w"
  by (cases op)
     (simp_all add: any_def out_def err_def wrn_def inf'_def dbg_def db2_def log_def)

text \<open>\<open>__print\<close> neither reads nor changes the buffer.\<close>

lemma print_dmsgs:
  "print' self env n lvl t dp (w\<lparr>dmsgs := ds\<rparr>)
   = (case print' self env n lvl t dp w of
        Inl e \<Rightarrow> Inl e
      | Inr w1 \<Rightarrow> Inr (w1\<lparr>dmsgs := ds\<rparr>))"
  by (simp add: print'_def Let_def split: option.splits sum.splits)

lemma print_keeps_dmsgs:
  "print' self env n lvl t dp w = Inr w1 \<Longrightarrow> dmsgs w1 = dmsgs w"
  by (auto simp: print'_def Let_def split: option.splits sum.splits if_splits)

lemma print_indent_cong:
  "str_mul ''  '' (d - 2) = str_mul ''  '' (frame_depth' None (n + 1) - 3)
   \<Longrightarrow> print' self env n lvl t (Some d) w = print' self env n lvl t None w"
  by (simp only: print'_def Let_def option.case)

text \<open>The replay loop passes the buffer of the state through, and runs over a
  concatenation part after part.\<close>

lemma msgs_loop_dmsgs:
  "msgs_loop self env lvl fa fu ba ea ffl ms (w\<lparr>dmsgs := ds\<rparr>)
   = (case msgs_loop self env lvl fa fu ba ea ffl ms w of
        Inl e \<Rightarrow> Inl e
      | Inr w1 \<Rightarrow> Inr (w1\<lparr>dmsgs := ds\<rparr>))"
proof (induction ms arbitrary: w)
  case Nil
  show ?case by simp
next
  case (Cons m ms)
  show ?case
    by (cases "print' self env (nframes env + 2) (case lvl of None \<Rightarrow> m_dlvl m | Some l \<Rightarrow> l)
                 (msgs_txt ffl m) (Some (m_dpth m)) w")
       (simp_all add: Cons.IH print_dmsgs)
qed

lemma msgs_loop_append:
  "msgs_loop self env lvl fa fu ba ea ffl (xs @ ys) w
   = (case msgs_loop self env lvl fa fu ba ea ffl xs w of
        Inl e \<Rightarrow> Inl e
      | Inr w1 \<Rightarrow> msgs_loop self env lvl fa fu ba ea ffl ys w1)"
  by (induction xs arbitrary: w) (simp_all split: sum.splits)


subsection \<open>Scenario A\<close>

text \<open>
  Claim C1. With threshold \<open>err\<close>, \<open>file_n_line\<close> on and \<open>date_n_time\<close> off,
  \<open>err("boom")\<close> from line 42 of \<open>f\<close> in file \<open>x\<close> is claimed to put out the line
  \<open>[x:f():42] boom\<close>. The logger built from exactly these options writes one line, on the
  console, and it is the bare text: \<open>__print\<close> hands only the log-file write to
  \<open>__format_line\<close>.
\<close>

theorem scenario_A_console_no_header:
  "init any_path (init_defaults\<lparr>a_lvl := ''err'', a_date_n_time := Some False,
                                a_file_n_line := Some True\<rparr>)
     = Inr (Dbg_defaults\<lparr>date_n_time := False\<rparr>)
   \<and> err (Dbg_defaults\<lparr>date_n_time := False\<rparr>) sample_env ''boom'' w_empty
     = Inr (w_empty\<lparr>written := [Stdout (''boom'' @ nl)]\<rparr>)
   \<and> ''boom'' @ nl \<noteq> ''[x:f():42] boom'' @ nl"
  by (simp add: init_def init_defaults_def levels_def Dbg_defaults_def or_default_def ERR_def
      err_def print'_def filter'_def sample_env_def site_x_f_42_def w_empty_def)

text \<open>
  The write to the log file, where there is one, does carry the header: with a log file
  attached and the call site not filtered out, the same call appends \<open>[x:f():42] boom\<close> to
  the log file, and the console line, written unless \<open>log_only\<close> is set, is the text after
  its trace indentation.
\<close>

lemma scenario_A_log_line:
  assumes "dlvl self = ERR" "file_n_line self" "\<not> date_n_time self" "log_fp self = Some fp"
    and "\<not> filter' self (caller env)" "caller env = site_x_f_42"
  shows "err self env ''boom'' w
         = Inr (w\<lparr>written := written w @ [LogWrite fp (''[x:f():42] boom'' @ nl)]
                  @ (if log_only self then []
                     else [Stdout ((if trc self then str_mul ''  '' (int (nframes env) - 1)
                                    else []) @ ''boom'' @ nl)])\<rparr>)"
  using assms
  by (simp add: err_def print'_def format_line'_def site_x_f_42_def str_int_42 frame_depth_eq
      max_def)

lemma scenario_A_log_line_example:
  "err (Dbg_defaults\<lparr>date_n_time := False, log_fp := Some ''app.log''\<rparr>) sample_env ''boom''
     w_empty
   = Inr (w_empty\<lparr>written := [LogWrite ''app.log'' (''[x:f():42] boom'' @ nl),
                                 Stdout (''boom'' @ nl)]\<rparr>)"
  using scenario_A_log_line
      [where self = "Dbg_defaults\<lparr>date_n_time := False, log_fp := Some ''app.log''\<rparr>"
       and fp = "''app.log''" and env = sample_env and w = w_empty]
  by (simp add: Dbg_defaults_def sample_env_def filter'_def w_empty_def)

subsection \<open>The buffer and the instances\<close>

text \<open>
  Claim C2, as stated: a \<open>msg\<close> on one instance changes neither \<open>errs\<close> nor the messages
  drained by \<open>msgs\<close> on another instance. Two loggers built with different options: after
  \<open>msg\<close> on the first, \<open>errs\<close> on the second turns from false to true and its \<open>msgs\<close>
  prints the first one's message.
\<close>

theorem recorder_exclusive_counterexample:
  "init any_path init_defaults = Inr Dbg_defaults
   \<and> init any_path (init_defaults\<lparr>a_lvl := ''dbg'', a_date_n_time := Some False\<rparr>)
       = Inr (Dbg_defaults\<lparr>dlvl := DBG, date_n_time := False\<rparr>)
   \<and> Dbg_defaults \<noteq> Dbg_defaults\<lparr>dlvl := DBG, date_n_time := False\<rparr>
   \<and> errs (Dbg_defaults\<lparr>dlvl := DBG, date_n_time := False\<rparr>) w_empty = False
   \<and> msgs_default (Dbg_defaults\<lparr>dlvl := DBG, date_n_time := False\<rparr>) sample_env w_empty
       = Inr w_empty
   \<and> msg Dbg_defaults sample_env ERR ''m'' w_empty = Inr (w_empty\<lparr>dmsgs := [mobj_m 1 ''err'']\<rparr>)
   \<and> errs (Dbg_defaults\<lparr>dlvl := DBG, date_n_time := False\<rparr>)
        (w_empty\<lparr>dmsgs := [mobj_m 1 ''err'']\<rparr>) = True
   \<and> msgs_default (Dbg_defaults\<lparr>dlvl := DBG, date_n_time := False\<rparr>) sample_env
        (w_empty\<lparr>dmsgs := [mobj_m 1 ''err'']\<rparr>)
       = Inr (w_empty\<lparr>written := [Stdout (''m'' @ nl)]\<rparr>)"
  by (simp add: init_def init_defaults_def levels_def Dbg_defaults_def or_default_def level_defs
      errs_def msgs_default_def msgs_def msgs_skip_def msgs_txt_def print'_def filter'_def
      msg_def level_name_def mobj_m_def frame_depth_eq
      sample_env_def site_x_f_42_def w_empty_def)

text \<open>
  Claim C2, amended: the buffer is one list shared by every instance. A \<open>msg\<close> with a level
  from \<open>ANY\<close> to \<open>LOG\<close> on any instance \<open>a\<close> appends its message to that list. After
  it, \<open>errs\<close> on every instance \<open>b\<close> is true, and \<open>msgs()\<close> on \<open>b\<close> does what it did
  on the earlier buffer and then passes the message recorded through \<open>a\<close> to \<open>__print\<close>.
\<close>

theorem recorder_shared:
  assumes "ANY \<le> lvl" "lvl \<le> LOG"
  shows "\<exists>m. msg a env lvl t w = Inr (w\<lparr>dmsgs := dmsgs w @ [m]\<rparr>)
             \<and> m_txt m = t \<and> m_dlvl m = lvl
             \<and> errs b (w\<lparr>dmsgs := dmsgs w @ [m]\<rparr>)
             \<and> msgs_default b env2 (w\<lparr>dmsgs := dmsgs w @ [m]\<rparr>)
                 = (case msgs_default b env2 w of
                      Inl e \<Rightarrow> Inl e
                    | Inr w1 \<Rightarrow>
                        print' b env2 (nframes env2 + 2) lvl (msgs_txt (file_func_line b) m)
                          (Some (m_dpth m)) w1)"
proof -
  from level_name_valid [OF assms] obtain nm where nm: "level_name lvl = Inr nm" ..
  define m where "m = \<lparr>m_lvl = nm, m_fnm = s_fnm (caller env), m_func = s_func (caller env),
    m_ln = s_ln (caller env), m_txt = t, m_dlvl = lvl,
    m_dpth = frame_depth' (Some 1) (nframes env + 2)\<rparr>"
  from assms nm have "msg a env lvl t w = Inr (w\<lparr>dmsgs := dmsgs w @ [m]\<rparr>)"
    by (simp add: msg_def m_def)
  moreover have "m_txt m = t" and lvl: "m_dlvl m = lvl" by (simp_all add: m_def)
  moreover have "errs b (w\<lparr>dmsgs := dmsgs w @ [m]\<rparr>)" by (simp add: errs_def)
  moreover have "msgs_default b env2 (w\<lparr>dmsgs := dmsgs w @ [m]\<rparr>)
                 = (case msgs_default b env2 w of
                      Inl e \<Rightarrow> Inl e
                    | Inr w1 \<Rightarrow>
                        print' b env2 (nframes env2 + 2) lvl (msgs_txt (file_func_line b) m)
                          (Some (m_dpth m)) w1)"
    using lvl
    by (simp add: msgs_default_def msgs_def msgs_loop_append msgs_loop_dmsgs msgs_skip_def
        print_dmsgs split: sum.splits)
  ultimately show ?thesis by blast
qed

theorem recorder_shared_witness:
  "msg Dbg_defaults sample_env ERR ''m'' w_empty = Inr (w_empty\<lparr>dmsgs := [mobj_m 1 ''err'']\<rparr>)
   \<and> errs (Dbg_defaults\<lparr>dlvl := DBG\<rparr>) (w_empty\<lparr>dmsgs := [mobj_m 1 ''err'']\<rparr>)
   \<and> msgs_default (Dbg_defaults\<lparr>dlvl := DBG\<rparr>) sample_env (w_empty\<lparr>dmsgs := [mobj_m 1 ''err'']\<rparr>)
     = Inr (w_empty\<lparr>written := [Stdout (''m'' @ nl)]\<rparr>)"
  using recorder_shared [where lvl = ERR and a = Dbg_defaults and env = sample_env
      and t = "''m''" and w = w_empty and b = "Dbg_defaults\<lparr>dlvl := DBG\<rparr>"
      and ?env2.0 = sample_env]
  by (simp add: level_defs errs_def msg_def level_name_def levels_def mobj_m_def
      msgs_default_def msgs_def msgs_skip_def msgs_txt_def print'_def filter'_def Dbg_defaults_def
      frame_depth_eq sample_env_def site_x_f_42_def w_empty_def)

subsection \<open>The live filter\<close>

text \<open>
  Claim C3. The live filter is claimed to suppress exactly when the file-name filter, the
  function allow-list or the line range rejects the call site, so that a function on the
  allow-list at a line outside the range is still suppressed. In \<open>__filter\<close> the loop over
  the allow-list returns at the first match, before the line range is looked at: with the
  allow-list \<open>f\<close> and the range 10 to 20, a call from \<open>f\<close> at line 50 is not suppressed.
\<close>

theorem filter_allowlist_skips_range:
  "filter' (Dbg_defaults\<lparr>func := Some ''f'', ln_beg := Some 10, ln_end := Some 20\<rparr>)
     \<lparr>s_fnm = ''x'', s_func = ''f'', s_ln = 50\<rparr> = False"
  by (simp add: filter'_def Dbg_defaults_def)

subsection \<open>The formatter\<close>

text \<open>
  Claim C4, as stated: with both header options off the formatter returns the text
  unchanged. It returns the text with a newline appended.
\<close>

theorem format_line_identity_counterexample:
  "format_line' (Dbg_defaults\<lparr>date_n_time := False, file_n_line := False\<rparr>) sample_clock
     site_x_f_42 ERR ''boom'' = Inr (''boom'' @ nl)
   \<and> ''boom'' @ nl \<noteq> ''boom''"
  by (simp add: format_line'_def nl_def)

text \<open>
  Claim C4, amended: for every level, call site and text, with \<open>date_n_time\<close> and
  \<open>file_n_line\<close> both off the formatter returns the text followed by one newline, with no
  header.
\<close>

theorem format_line_no_header:
  "\<not> date_n_time self \<Longrightarrow> \<not> file_n_line self
   \<Longrightarrow> format_line' self clock site lvl t = Inr (t @ nl)"
  by (simp add: format_line'_def)

theorem format_line_no_header_witness:
  "\<not> date_n_time (Dbg_defaults\<lparr>date_n_time := False, file_n_line := False\<rparr>)
   \<and> \<not> file_n_line (Dbg_defaults\<lparr>date_n_time := False, file_n_line := False\<rparr>)
   \<and> format_line' (Dbg_defaults\<lparr>date_n_time := False, file_n_line := False\<rparr>) sample_clock
        site_x_f_42 ERR ''boom'' = Inr (''boom'' @ nl)"
  using format_line_no_header
      [where self = "Dbg_defaults\<lparr>date_n_time := False, file_n_line := False\<rparr>"
       and clock = sample_clock and site = site_x_f_42 and lvl = ERR and t = "''boom''"]
  by simp

subsection \<open>Level gating\<close>

text \<open>
  Claim C5. With the threshold below the level of an emit method, that method writes
  nothing: neither to the console, nor to the log file, and the state is unchanged.
\<close>

theorem emit_above_threshold_silent:
  "dlvl self < level_of op \<Longrightarrow> emit op self env t w = Inr w"
  by (cases op)
     (simp_all add: any_def out_def err_def wrn_def inf'_def dbg_def db2_def log_def)

theorem emit_above_threshold_silent_witness:
  "dlvl (Dbg_defaults\<lparr>dlvl := WRN\<rparr>) < level_of OpDbg
   \<and> emit OpDbg (Dbg_defaults\<lparr>dlvl := WRN\<rparr>) sample_env ''hidden'' w_empty = Inr w_empty"
  using emit_above_threshold_silent
      [where self = "Dbg_defaults\<lparr>dlvl := WRN\<rparr>" and op = OpDbg
       and env = sample_env and t = "''hidden''" and w = w_empty]
  by (simp add: WRN_def DBG_def)

subsection \<open>Record, then drain\<close>

text \<open>
  Claim C6, as stated: for every message and configuration, \<open>msg\<close> followed by \<open>msgs()\<close>
  writes what the direct emit writes. Neither \<open>msg\<close> nor \<open>msgs\<close> looks at the threshold:
  under threshold \<open>err\<close>, \<open>dbg("m")\<close> writes nothing, while \<open>msg(DBG, "m")\<close> followed by
  \<open>msgs()\<close> prints \<open>m\<close>.
\<close>

theorem record_drain_counterexample:
  "dbg Dbg_defaults sample_env ''m'' w_empty = Inr w_empty
   \<and> msg Dbg_defaults sample_env DBG ''m'' w_empty = Inr (w_empty\<lparr>dmsgs := [mobj_m 4 ''dbg'']\<rparr>)
   \<and> msgs_default Dbg_defaults sample_env (w_empty\<lparr>dmsgs := [mobj_m 4 ''dbg'']\<rparr>)
       = Inr (w_empty\<lparr>written := [Stdout (''m'' @ nl)]\<rparr>)
   \<and> w_empty\<lparr>written := [Stdout (''m'' @ nl)]\<rparr> \<noteq> w_empty"
  by (simp add: Dbg_defaults_def level_defs dbg_def
      msgs_default_def msgs_def msgs_skip_def msgs_txt_def print'_def filter'_def
      msg_def level_name_def levels_def mobj_m_def frame_depth_eq
      sample_env_def site_x_f_42_def w_empty_def)

text \<open>
  Claim C6, amended: when the threshold admits the level of the emit method, the buffer is
  empty beforehand, \<open>file_func_line\<close> is off, and \<open>msgs()\<close> is called from the call site
  of the direct emit at the stack depth of the \<open>msg\<close> call, then \<open>msg\<close> followed by
  \<open>msgs()\<close> ends in the state the direct emit ends in: the same writes to the console and
  to the log file, and the buffer empty again.
\<close>

theorem record_drain_eq_emit:
  assumes thr: "level_of op \<le> dlvl self"
    and ffl: "\<not> file_func_line self"
    and empty: "dmsgs w = []"
    and depth: "nframes env1 = nframes env2"
  shows "(case msg self env1 (level_of op) t w of
            Inl e \<Rightarrow> Inl e
          | Inr w1 \<Rightarrow> msgs_default self env2 w1)
         = emit op self env2 t w"
proof -
  from level_name_of_op obtain nm where nm: "level_name (level_of op) = Inr nm" ..
  define m where "m = \<lparr>m_lvl = nm, m_fnm = s_fnm (caller env1), m_func = s_func (caller env1),
    m_ln = s_ln (caller env1), m_txt = t, m_dlvl = level_of op,
    m_dpth = frame_depth' (Some 1) (nframes env1 + 2)\<rparr>"
  have rec: "msg self env1 (level_of op) t w = Inr (w\<lparr>dmsgs := [m]\<rparr>)"
    using level_of_valid [of op] nm empty by (simp add: msg_def m_def)
  have ind: "str_mul ''  '' (m_dpth m - 2)
             = str_mul ''  '' (frame_depth' None (nframes env2 + 2 + 1) - 3)"
    using depth recorded_indent [of "nframes env2"] by (simp add: m_def)
  have pr: "print' self env2 (nframes env2 + 2) (m_dlvl m) (msgs_txt False m) (Some (m_dpth m)) w
            = print' self env2 (nframes env2 + 2) (level_of op) t None w"
    using print_indent_cong [OF ind] by (simp add: m_def msgs_txt_def)
  have drain: "msgs_default self env2 (w\<lparr>dmsgs := [m]\<rparr>)
               = print' self env2 (nframes env2 + 2) (level_of op) t None w"
  proof (cases "print' self env2 (nframes env2 + 2) (level_of op) t None w")
    case (Inl e)
    with pr ffl show ?thesis
      by (simp add: msgs_default_def msgs_def msgs_skip_def print_dmsgs)
  next
    case (Inr w2)
    from print_keeps_dmsgs [OF Inr] empty have "dmsgs w2 = []" by simp
    then have "w2\<lparr>dmsgs := []\<rparr> = w2" by simp
    with pr ffl Inr show ?thesis
      by (simp add: msgs_default_def msgs_def msgs_skip_def print_dmsgs)
  qed
  from rec drain emit_eq_print [OF thr] show ?thesis by simp
qed

theorem record_drain_eq_emit_witness:
  "(case msg (Dbg_defaults\<lparr>trc := True, log_fp := Some ''app.log'', date_n_time := False\<rparr>)
           sample_env ERR ''m'' w_empty of
      Inl e \<Rightarrow> Inl e
    | Inr w1 \<Rightarrow> msgs_default
                 (Dbg_defaults\<lparr>trc := True, log_fp := Some ''app.log'', date_n_time := False\<rparr>)
                 sample_env w1)
   = Inr (w_empty\<lparr>written := [LogWrite ''app.log'' (''[x:f():42] m'' @ nl),
                                 Stdout (''  m'' @ nl)]\<rparr>)
   \<and> emit OpErr (Dbg_defaults\<lparr>trc := True, log_fp := Some ''app.log'', date_n_time := False\<rparr>)
        sample_env ''m'' w_empty
     = Inr (w_empty\<lparr>written := [LogWrite ''app.log'' (''[x:f():42] m'' @ nl),
                                   Stdout (''  m'' @ nl)]\<rparr>)"
  using record_drain_eq_emit
      [where op = OpErr
       and self = "Dbg_defaults\<lparr>trc := True, log_fp := Some ''app.log'', date_n_time := False\<rparr>"
       and w = w_empty and ?env1.0 = sample_env and ?env2.0 = sample_env and t = "''m''"]
  by (simp add: Dbg_defaults_def level_defs err_def print'_def filter'_def format_line'_def
      str_int_42 frame_depth_eq str_mul_def sample_env_def site_x_f_42_def w_empty_def)

subsection \<open>The sink writer\<close>

text \<open>
  Claim C7. With \<open>log_only\<close> and \<open>force_out\<close> both set, an \<open>out\<close> line is claimed to
  reach the console all the same. \<open>__print\<close> tests \<open>log_only\<close> alone: the line goes to
  the log file and nothing is written to the console.
\<close>

theorem force_out_not_enforced:
  "out (Dbg_defaults\<lparr>dlvl := OUT, log_fp := Some ''app.log'', log_file := Some ''app.log'',
          log_only := True, force_out := True, date_n_time := False\<rparr>)
     sample_env ''hello'' w_empty
   = Inr (w_empty\<lparr>written := [LogWrite ''app.log'' (''[x:f():42] hello'' @ nl)]\<rparr>)"
  by (simp add: out_def print'_def filter'_def format_line'_def Dbg_defaults_def sample_env_def
      site_x_f_42_def w_empty_def str_int_42 OUT_def)

subsection \<open>The constructor\<close>

text \<open>
  Claim C8, as stated: \<open>__init__\<close> raises its \<open>ValueError\<close> exactly when the level name
  is not recognised or \<open>log_only\<close> is requested without a log file, and succeeds on
  recognised inputs. With the level \<open>err\<close> and \<open>log_only\<close> left alone, a log file that
  does not open makes the constructor raise, and a log file name with a NUL character makes
  it raise a \<open>ValueError\<close>.
\<close>

theorem init_raises_counterexample:
  "a_lvl (init_defaults\<lparr>a_log_file := Some ''app.log''\<rparr>) \<in> set (map fst levels)
   \<and> a_log_only (init_defaults\<lparr>a_log_file := Some ''app.log''\<rparr>) = None
   \<and> init no_path (init_defaults\<lparr>a_log_file := Some ''app.log''\<rparr>) = Inl (OSError ''app.log'')
   \<and> a_lvl (init_defaults\<lparr>a_log_file := Some [CHR 0x00]\<rparr>) \<in> set (map fst levels)
   \<and> a_log_only (init_defaults\<lparr>a_log_file := Some [CHR 0x00]\<rparr>) = None
   \<and> init any_path (init_defaults\<lparr>a_log_file := Some [CHR 0x00]\<rparr>)
       = Inl (ValueError ''embedded null byte'')"
  by (simp add: init_def init_defaults_def levels_def open_append_def no_path_def any_path_def)

text \<open>
  Claim C8, amended: \<open>__init__\<close> returns an instance exactly when the level name is
  recognised, \<open>log_only\<close> is not requested without a log file, and the log file, when one
  is named, opens for append. It raises its \<open>ValueError\<close> on the level when the name is
  not recognised, its \<open>ValueError\<close> on \<open>log_only\<close> when the name is recognised and
  \<open>log_only\<close> is requested without a log file, and the error of \<open>open\<close> when the name is
  recognised and the named log file does not open.
\<close>

theorem init_outcome:
  "((\<exists>self. init can_open a = Inr self)
      \<longleftrightarrow> (a_lvl a \<in> set (map fst levels)
           \<and> \<not> (a_log_only a = Some True \<and> a_log_file a = None)
           \<and> (case a_log_file a of
                None \<Rightarrow> True
              | Some f \<Rightarrow> open_append can_open f = Inr f)))
   \<and> (a_lvl a \<notin> set (map fst levels)
        \<longrightarrow> init can_open a
            = Inl (ValueError (''Debug level of '' @ quote @ a_lvl a @ quote
                               @ '' not recognized.'')))
   \<and> (a_lvl a \<in> set (map fst levels) \<and> a_log_only a = Some True \<and> a_log_file a = None
        \<longrightarrow> init can_open a
            = Inl (ValueError (''Can'' @ quote @ ''t specify log_only and no log_file!'')))
   \<and> (\<forall>f e. a_lvl a \<in> set (map fst levels) \<and> a_log_file a = Some f
              \<and> open_append can_open f = Inl e
        \<longrightarrow> init can_open a = Inl e)"
proof -
  have lv: "(map_of levels (a_lvl a) = None) = (a_lvl a \<notin> set (map fst levels))"
    by (simp add: map_of_eq_None_iff)
  show ?thesis
  proof (cases "map_of levels (a_lvl a)")
    case None
    with lv show ?thesis by (simp add: init_def)
  next
    case (Some l)
    with lv have mem: "a_lvl a \<in> set (map fst levels)" by simp
    show ?thesis
    proof (cases "a_log_file a")
      case None
      with Some mem show ?thesis by (simp add: init_def)
    next
      case f: (Some f)
      show ?thesis
      proof (cases "open_append can_open f")
        case (Inl e)
        with Some mem f show ?thesis by (simp add: init_def)
      next
        case (Inr h)
        then have "h = f" by (simp add: open_append_def split: if_splits)
        with Inr Some mem f show ?thesis by (simp add: init_def)
      qed
    qed
  qed
qed

theorem init_outcome_witness:
  "init any_path (init_defaults\<lparr>a_log_only := Some True\<rparr>)
     = Inl (ValueError (''Can'' @ quote @ ''t specify log_only and no log_file!''))
   \<and> init any_path (init_defaults\<lparr>a_lvl := ''dbg2''\<rparr>)
     = Inl (ValueError (''Debug level of '' @ quote @ ''dbg2'' @ quote @ '' not recognized.''))
   \<and> init no_path (init_defaults\<lparr>a_log_file := Some ''app.log''\<rparr>) = Inl (OSError ''app.log'')
   \<and> init any_path init_defaults = Inr Dbg_defaults
   \<and> init any_path (init_defaults\<lparr>a_log_file := Some ''app.log'', a_log_only := Some True\<rparr>)
     = Inr (Dbg_defaults\<lparr>log_fp := Some ''app.log'', log_file := Some ''app.log'',
                          log_only := True\<rparr>)"
  using init_outcome
      [where can_open = any_path and a = "init_defaults\<lparr>a_log_only := Some True\<rparr>"]
    init_outcome [where can_open = any_path and a = "init_defaults\<lparr>a_lvl := ''dbg2''\<rparr>"]
    init_outcome
      [where can_open = no_path and a = "init_defaults\<lparr>a_log_file := Some ''app.log''\<rparr>"]
    init_outcome [where can_open = any_path and a = init_defaults]
    init_outcome
      [where can_open = any_path
       and a = "init_defaults\<lparr>a_log_file := Some ''app.log'', a_log_only := Some True\<rparr>"]
  by (simp add: init_def init_defaults_def levels_def Dbg_defaults_def or_default_def ERR_def
      open_append_def any_path_def no_path_def)

subsection \<open>Line ranges\<close>




subsection \<open>Trace helpers\<close>

text \<open>
  Claim C10. The output of \<open>enter\<close> and \<open>leave\<close> does not depend on the threshold: under
  any two thresholds, all else equal, each produces the same result.
\<close>

theorem trace_threshold_independent:
  "enter (self\<lparr>dlvl := ta\<rparr>) env m w = enter (self\<lparr>dlvl := tb\<rparr>) env m w
   \<and> leave (self\<lparr>dlvl := ta\<rparr>) env m w = leave (self\<lparr>dlvl := tb\<rparr>) env m w"
  by (simp add: enter_def leave_def enter'_def leave'_def filter_dlvl format_line_dlvl Let_def
        cong: option.case_cong)

theorem trace_threshold_independent_witness:
  "enter (Dbg_defaults\<lparr>trc := True, dlvl := NONE\<rparr>) sample_env ''x'' w_empty
     = Inr (w_empty\<lparr>written := [Stdout (''f(x) {'' @ nl)]\<rparr>)
   \<and> enter (Dbg_defaults\<lparr>trc := True, dlvl := LOG\<rparr>) sample_env ''x'' w_empty
     = Inr (w_empty\<lparr>written := [Stdout (''f(x) {'' @ nl)]\<rparr>)
   \<and> leave (Dbg_defaults\<lparr>trc := True, dlvl := NONE\<rparr>) sample_env ''y'' w_empty
     = leave (Dbg_defaults\<lparr>trc := True, dlvl := LOG\<rparr>) sample_env ''y'' w_empty"
  using trace_threshold_independent
      [where self = "Dbg_defaults\<lparr>trc := True\<rparr>" and ta = NONE and tb = LOG
       and env = sample_env and m = "''x''" and w = w_empty]
    trace_threshold_independent
      [where self = "Dbg_defaults\<lparr>trc := True\<rparr>" and ta = NONE and tb = LOG
       and env = sample_env and m = "''y''" and w = w_empty]
  by (simp add: enter_def enter'_def filter'_def Dbg_defaults_def sample_env_def site_x_f_42_def
      w_empty_def frame_depth_eq str_mul_def)

end
